theory Spec2Isabelle
  imports Complex_Main
begin

section \<open>Python values shared by the three programs\<close>

text \<open>
  Python integers are unbounded, so they are \<open>int\<close>. Subscripting a list with an
  integer raises \<open>IndexError\<close> outside \<open>[-len, len)\<close> and counts from the end for a
  negative index; both are branches of \<open>py_getitem\<close>.
\<close>

datatype py_error = IndexError

definition py_getitem :: "'a list \<Rightarrow> int \<Rightarrow> py_error + 'a" where
  "py_getitem xs i =
     (let n = int (length xs) in
      if 0 \<le> i \<and> i < n then Inr (xs ! nat i)
      else if - n \<le> i \<and> i < 0 then Inr (xs ! nat (n + i))
      else Inl IndexError)"

text \<open>
  \<open>clamp\<close> is the engine's helper (\<open>from ursina import *\<close>), which is
  \<open>max(min(value, ceiling), floor)\<close>.
\<close>

definition clamp :: "int \<Rightarrow> int \<Rightarrow> int \<Rightarrow> int" where
  "clamp v floor_v ceiling_v = max (min v ceiling_v) floor_v"


section \<open>supermarioss.py: the narrative slideshow\<close>

text \<open>
  The sixteen lines of \<open>story_lines\<close>. The line of index 11 holds an en dash in the
  source; it is written here as the three bytes of its UTF-8 encoding.
\<close>

definition story_lines :: "string list" where
  "story_lines =
    [''Mario finds himself in a strange new world, seeking Power Stars.'',
     ''A towering fortress stands before him under the twilight sky.'',
     ''Enemies lurk around, but Mario presses on with determination.'',
     ''He navigates treacherous paths and narrow ledges with skill.'',
     ''At the fortress summit, a fierce Goomba King challenges Mario!'',
     ''Defeated, the Goomba King drops a shining Power Star at Mario's feet.'',
     ''With a cheer, Mario claims the Power Star, feeling stronger.'',
     ''A distant gate opens, revealing a new area for Mario to explore.'',
     ''Mario gathers 8 Red Coins hidden around the fortress grounds.'',
     ''The Red Coins' energy forms a Power Star above an ancient pedestal.'',
     ''Mario leaps high and secures the newly formed Power Star in triumph.'',
     ''A rumble shakes the world '' @ [CHR 0xE2, CHR 0x80, CHR 0x93]
        @ '' Bowser's laugh echoes in the distance.'',
     ''Mario races through the opened gate toward Bowser's looming castle.'',
     ''In the grand hall, Bowser confronts Mario for a final showdown.'',
     ''With courage and agility, Mario overcomes Bowser's tricks and traps.'',
     ''Bowser yields, and the final Grand Star appears for Mario to grab.'']"

definition star_trigger_indices :: "int set" where
  "star_trigger_indices = {5, 8, 9, 15}"

text \<open>
  The module's globals and the three text widgets it writes to. \<open>star_text\<close> keeps
  the number that the label \<open>f"<star>: {star_count}"\<close> shows; the scale animation of the
  label belongs to the engine and is left out.
\<close>

record story_state =
  story_index :: int
  star_count :: int
  narrative_text :: string
  prompt_enabled :: bool
  star_text :: int

definition story_init :: "py_error + story_state" where
  "story_init =
     (case py_getitem story_lines 0 of
        Inl e \<Rightarrow> Inl e
      | Inr line \<Rightarrow>
          Inr \<lparr>story_index = 0, star_count = 0, narrative_text = line,
               prompt_enabled = True, star_text = 0\<rparr>)"

definition progress_story :: "story_state \<Rightarrow> py_error + story_state" where
  "progress_story s =
     (if story_index s < int (length story_lines) - 1 then
        (let i = story_index s + 1 in
         case py_getitem story_lines i of
           Inl e \<Rightarrow> Inl e
         | Inr line \<Rightarrow>
             (let s1 = s\<lparr>story_index := i, narrative_text := line\<rparr>;
                  s2 = (if i \<in> star_trigger_indices
                        then s1\<lparr>star_count := star_count s1 + 1,
                                star_text := star_count s1 + 1\<rparr>
                        else s1);
                  s3 = (if i = int (length story_lines) - 1
                        then s2\<lparr>prompt_enabled := False\<rparr>
                        else s2)
              in Inr s3))
      else Inr s)"

text \<open>\<open>presses n\<close> is the session after \<open>n\<close> presses of the space key.\<close>

fun presses :: "nat \<Rightarrow> py_error + story_state" where
  "presses 0 = story_init"
| "presses (Suc n) =
     (case presses n of Inl e \<Rightarrow> Inl e | Inr s \<Rightarrow> progress_story s)"


text \<open>
  What every reachable state of the slideshow satisfies; \<open>15\<close> is the index of the last
  line.
\<close>

definition story_inv :: "story_state \<Rightarrow> bool" where
  "story_inv s \<longleftrightarrow>
     0 \<le> story_index s \<and> story_index s \<le> 15 \<and>
     narrative_text s = story_lines ! nat (story_index s) \<and>
     star_count s = int (card {t \<in> star_trigger_indices. t \<le> story_index s})"


section \<open>starroad4k6.8.25.py: the course browser\<close>

text \<open>
  The fields of \<open>CourseBrowser\<close> that its methods read and write. \<open>_refresh\<close> only
  rebuilds the list of text widgets \<open>items\<close> from a slice of \<open>courses\<close> and touches
  none of these fields, so it is the identity here.
\<close>

record 'c course_browser =
  courses :: "'c list"
  scroll_index :: int
  selected :: int
  visible_rows :: int

definition browser_init :: "'c list \<Rightarrow> 'c course_browser" where
  "browser_init cs = \<lparr>courses = cs, scroll_index = 0, selected = 0, visible_rows = 10\<rparr>"

definition set_courses :: "'c list \<Rightarrow> 'c course_browser \<Rightarrow> 'c course_browser" where
  "set_courses cs b = b\<lparr>courses := cs, scroll_index := 0, selected := 0\<rparr>"

definition scroll :: "int \<Rightarrow> 'c course_browser \<Rightarrow> 'c course_browser" where
  "scroll amount b =
     (let b1 = b\<lparr>selected := clamp (selected b + amount) 0 (int (length (courses b)) - 1)\<rparr>
      in if selected b1 < scroll_index b1 then b1\<lparr>scroll_index := selected b1\<rparr>
         else if selected b1 \<ge> scroll_index b1 + visible_rows b1
              then b1\<lparr>scroll_index := selected b1 - visible_rows b1 + 1\<rparr>
         else b1)"

definition get_selected_course :: "'c course_browser \<Rightarrow> py_error + 'c" where
  "get_selected_course b = py_getitem (courses b) (selected b)"

text \<open>The two calls the input handler makes on the widget, and a run of them.\<close>

datatype 'c browser_call = Scroll int | SetCourses "'c list"

fun apply_call :: "'c browser_call \<Rightarrow> 'c course_browser \<Rightarrow> 'c course_browser" where
  "apply_call (Scroll amount) b = scroll amount b"
| "apply_call (SetCourses cs) b = set_courses cs b"

fun supplies_courses :: "'c browser_call \<Rightarrow> bool" where
  "supplies_courses (Scroll amount) = True"
| "supplies_courses (SetCourses cs) = (cs \<noteq> [])"

definition browser_run :: "'c browser_call list \<Rightarrow> 'c course_browser \<Rightarrow> 'c course_browser" where
  "browser_run calls b = fold apply_call calls b"

definition browser_inv :: "'c course_browser \<Rightarrow> bool" where
  "browser_inv b \<longleftrightarrow>
     0 \<le> selected b \<and> selected b < int (length (courses b)) \<and>
     scroll_index b \<le> selected b \<and> selected b < scroll_index b + visible_rows b"


section \<open>starroad4k6.8.25.py: the level generator\<close>

subsection \<open>Scene objects\<close>

text \<open>
  The keyword arguments of the \<open>Entity\<close> calls of \<open>_setup_world\<close>. \<open>scale\<close> is given
  once as a number and otherwise as a triple; positions are triples of Python integers.
\<close>

datatype mesh = Cube | Sphere

datatype tint = Green | Red | CyanTint

datatype collider_shape = BoxCollider | SphereCollider

datatype scale_arg = Uniform int | PerAxis int int int

record entity =
  model :: mesh
  color :: tint
  scale :: scale_arg
  position :: "int \<times> int \<times> int"
  collider :: "collider_shape option"
  double_sided :: bool

definition platform_entity :: "int \<Rightarrow> int \<times> int \<times> int \<Rightarrow> entity" where
  "platform_entity cell_size pos =
     \<lparr>model = Cube, color = Green, scale = PerAxis cell_size 1 cell_size,
      position = pos, collider = Some BoxCollider, double_sided = False\<rparr>"

definition obstacle_entity :: "int \<times> int \<times> int \<Rightarrow> entity" where
  "obstacle_entity pos =
     \<lparr>model = Sphere, color = Red, scale = Uniform 1,
      position = pos, collider = Some SphereCollider, double_sided = False\<rparr>"

definition skybox :: entity where
  "skybox =
     \<lparr>model = Sphere, color = CyanTint, scale = PerAxis 80 80 80,
      position = (0, 20, 0), collider = None, double_sided = True\<rparr>"

subsection \<open>What the interpreter supplies\<close>

text \<open>
  \<open>_setup_world\<close> calls three things that are no code of this repository, so they are
  parameters of the model:
  \<^item> \<open>str_hash\<close>, the built-in \<open>hash\<close> on strings of the running process (CPython salts
    it with a key drawn when the process starts, so two processes have two such
    functions);
  \<^item> \<open>random_seed\<close>, which replaces the state of the module-level generator of
    \<open>random\<close> by one computed from its integer argument;
  \<^item> \<open>random_random\<close>, which returns the next sample and the advanced state.
  \<open>'g\<close> is the type of the generator's state and \<open>'r\<close> the type of its samples.
\<close>

record ('g, 'r) runtime =
  str_hash :: "string \<Rightarrow> int"
  random_seed :: "int \<Rightarrow> 'g"
  random_random :: "'g \<Rightarrow> 'r \<times> 'g"

subsection \<open>The generator\<close>

text \<open>
  One pass of the inner loop body for the cell \<open>(x, z)\<close>. The state is the list of
  entities created so far, in creation order, and the state of the module-level
  generator. Samples are compared and added as the source does, in any ordered type
  with an addition.
\<close>

definition cell_step ::
  "('g, 'r::{linorder,plus}) runtime \<Rightarrow> int \<Rightarrow> 'r \<Rightarrow> 'r \<Rightarrow> int \<Rightarrow> int \<Rightarrow>
     entity list \<times> 'g \<Rightarrow> entity list \<times> 'g" where
  "cell_step rt cell_size p_empty p_platform x z st =
     (case st of (ents, g) \<Rightarrow>
        if x = 0 \<and> z = 0 then (ents, g)
        else
          (case random_random rt g of (r, g') \<Rightarrow>
             (let pos = (x * cell_size, 0, z * cell_size) in
              if r < p_empty then (ents, g')
              else if r < p_empty + p_platform
                   then (ents @ [platform_entity cell_size pos], g')
              else (ents @ [obstacle_entity (fst pos, 1, snd (snd pos))], g'))))"

text \<open>\<open>range(grid_size)\<close> is \<open>[0..grid_size - 1]\<close>, empty when \<open>grid_size \<le> 0\<close>.\<close>

definition row_loop ::
  "('g, 'r::{linorder,plus}) runtime \<Rightarrow> int \<Rightarrow> int \<Rightarrow> 'r \<Rightarrow> 'r \<Rightarrow> int \<Rightarrow>
     entity list \<times> 'g \<Rightarrow> entity list \<times> 'g" where
  "row_loop rt grid_size cell_size p_empty p_platform x st =
     fold (\<lambda>z. cell_step rt cell_size p_empty p_platform x z) [0..grid_size - 1] st"

definition grid_loop ::
  "('g, 'r::{linorder,plus}) runtime \<Rightarrow> int \<Rightarrow> int \<Rightarrow> 'r \<Rightarrow> 'r \<Rightarrow>
     entity list \<times> 'g \<Rightarrow> entity list \<times> 'g" where
  "grid_loop rt grid_size cell_size p_empty p_platform st =
     fold (\<lambda>x. row_loop rt grid_size cell_size p_empty p_platform x) [0..grid_size - 1] st"

text \<open>
  The body of \<open>_setup_world\<close> with its four local constants as arguments. The last
  argument is the state in which the call finds the module-level generator; the result
  is the list of entities the call creates and the state in which it leaves the
  generator. The local \<open>p_obstacle\<close> is never read.
\<close>

definition setup_world_with ::
  "('g, 'r::{linorder,plus}) runtime \<Rightarrow> int \<Rightarrow> int \<Rightarrow> 'r \<Rightarrow> 'r \<Rightarrow> string \<Rightarrow> 'g \<Rightarrow>
     entity list \<times> 'g" where
  "setup_world_with rt grid_size cell_size p_empty p_platform course_name g0 =
     (let g1 = random_seed rt (str_hash rt course_name);
          ents0 = [platform_entity cell_size (0, 0, 0)]
      in case grid_loop rt grid_size cell_size p_empty p_platform (ents0, g1) of
           (ents, g2) \<Rightarrow> (ents @ [skybox], g2))"

text \<open>
  \<open>_setup_world\<close> itself. The literals \<open>0.7\<close> and \<open>0.2\<close> are read as the decimals they
  spell. As doubles, they and their rounded sum lie within \<open>2\<^sup>-\<^sup>5\<^sup>2\<close> of \<open>0.7\<close>, \<open>0.2\<close> and
  \<open>0.9\<close>, so the two readings classify alike every sample that is a multiple of
  \<open>1/1000\<close>, as the samples are wherever \<open>setup_world\<close> is evaluated below. What is proved
  of \<open>setup_world_with\<close> holds for any ordered type with an addition, the doubles
  included.
\<close>

definition setup_world ::
  "('g, 'r::linordered_field) runtime \<Rightarrow> string \<Rightarrow> 'g \<Rightarrow> entity list \<times> 'g" where
  "setup_world rt course_name g0 = setup_world_with rt 20 2 0.7 0.2 course_name g0"

text \<open>
  The source has no \<open>raise\<close> and checks none of its constants, so a call always returns.
  \<open>generate\<close> is the call seen as the operation of the specification, whose only error is
  \<open>ParameterValidationError\<close>.
\<close>

datatype gen_error = ParameterValidationError


subsection \<open>The specification's view of a grid\<close>

text \<open>
  These definitions follow the words of the specification, to be compared with the
  generator above: the three kinds, the classification of a sample, the geometry of a
  classified cell, the cells in row-major order, and \<open>n\<close> successive samples.
\<close>

datatype CellKind = Empty | Platform | Obstacle

definition spec_classify :: "'r::{linorder,plus} \<Rightarrow> 'r \<Rightarrow> 'r \<Rightarrow> CellKind" where
  "spec_classify p_empty p_platform r =
     (if r < p_empty then Empty
      else if p_empty \<le> r \<and> r < p_empty + p_platform then Platform
      else Obstacle)"

definition spec_geometry :: "int \<Rightarrow> CellKind \<Rightarrow> int \<times> int \<Rightarrow> entity list" where
  "spec_geometry cell_size kind cell =
     (case kind of
        Empty \<Rightarrow> []
      | Platform \<Rightarrow>
          [platform_entity cell_size (fst cell * cell_size, 0, snd cell * cell_size)]
      | Obstacle \<Rightarrow>
          [obstacle_entity (fst cell * cell_size, 1, snd cell * cell_size)])"

definition grid_cells :: "int \<Rightarrow> (int \<times> int) list" where
  "grid_cells grid_size =
     concat (map (\<lambda>x. map (\<lambda>z. (x, z)) [0..grid_size - 1]) [0..grid_size - 1])"

definition non_origin_cells :: "int \<Rightarrow> (int \<times> int) list" where
  "non_origin_cells grid_size = filter (\<lambda>c. c \<noteq> (0, 0)) (grid_cells grid_size)"

fun draws :: "('g, 'r) runtime \<Rightarrow> nat \<Rightarrow> 'g \<Rightarrow> 'r list \<times> 'g" where
  "draws rt 0 g = ([], g)"
| "draws rt (Suc n) g =
     (case random_random rt g of (r, g') \<Rightarrow>
        (case draws rt n g' of (rs, g'') \<Rightarrow> (r # rs, g'')))"

text \<open>
  The entities of a list of cells classified by a list of samples, cell by cell in the
  order of the lists.
\<close>

definition spec_layout ::
  "int \<Rightarrow> 'r::{linorder,plus} \<Rightarrow> 'r \<Rightarrow> (int \<times> int) list \<Rightarrow> 'r list \<Rightarrow> entity list" where
  "spec_layout cell_size p_empty p_platform cells rs =
     concat (map2 (\<lambda>c r. spec_geometry cell_size (spec_classify p_empty p_platform r) c) cells rs)"


subsection \<open>A small runtime to compute with\<close>

text \<open>
  A stand-in for the interpreter, used where a statement is evaluated at a concrete
  input: a string hash salted with a per-process key, and a linear congruential
  generator with samples in \<open>[0, 1)\<close>. They are not CPython's algorithms; they have the
  interface above and the one property that matters below, that the hash depends on the
  key of the process.
\<close>

definition salted_hash :: "int \<Rightarrow> string \<Rightarrow> int" where
  "salted_hash key s = key + sum_list (map of_char s)"

definition lcg_seed :: "int \<Rightarrow> int" where
  "lcg_seed a = \<bar>a\<bar> mod 1000"

definition lcg_random :: "int \<Rightarrow> rat \<times> int" where
  "lcg_random g = (let g' = (g * 21 + 7) mod 1000 in (of_int g' / 1000, g'))"

definition demo_runtime :: "int \<Rightarrow> (int, rat) runtime" where
  "demo_runtime key =
     \<lparr>str_hash = salted_hash key, random_seed = lcg_seed, random_random = lcg_random\<rparr>"


section \<open>Properties of the slideshow\<close>

lemma length_story_lines: "length story_lines = 16"
  by (simp add: story_lines_def)

lemma py_getitem_nonneg:
  "0 \<le> i \<Longrightarrow> i < int (length xs) \<Longrightarrow> py_getitem xs i = Inr (xs ! nat i)"
  by (simp add: py_getitem_def)

lemma finite_triggers: "finite star_trigger_indices"
  by (simp add: star_trigger_indices_def)

lemma triggers_upto_step:
  fixes i :: int
  assumes "finite T"
  shows "card {t \<in> T. t \<le> i + 1} = card {t \<in> T. t \<le> i} + (if i + 1 \<in> T then 1 else 0)"
proof -
  have le: "\<And>t. t \<le> i + 1 \<longleftrightarrow> t \<le> i \<or> t = i + 1" by arith
  have split: "{t \<in> T. t \<le> i + 1} = {t \<in> T. t \<le> i} \<union> (if i + 1 \<in> T then {i + 1} else {})"
    unfolding le by auto
  have fin: "finite {t \<in> T. t \<le> i}" using assms by simp
  have notin: "i + 1 \<notin> {t \<in> T. t \<le> i}" by simp
  show ?thesis
    unfolding split using fin notin by simp
qed

lemma triggers_card_le: "card {t \<in> star_trigger_indices. t \<le> (i::int)} \<le> 4"
proof -
  have "card {t \<in> star_trigger_indices. t \<le> i} \<le> card star_trigger_indices"
    by (rule card_mono) (auto simp: finite_triggers)
  also have "card star_trigger_indices = 4" by (simp add: star_trigger_indices_def)
  finally show ?thesis .
qed

lemma triggers_card_mono:
  "(i::int) \<le> j \<Longrightarrow>
     card {t \<in> star_trigger_indices. t \<le> i} \<le> card {t \<in> star_trigger_indices. t \<le> j}"
  by (rule card_mono) (auto simp: finite_triggers)

lemma story_init_eq:
  "story_init = Inr \<lparr>story_index = 0, star_count = 0, narrative_text = story_lines ! 0,
               prompt_enabled = True, star_text = 0\<rparr>"
  by (simp add: story_init_def py_getitem_def length_story_lines)

lemma story_init_inv: "\<exists>s. story_init = Inr s \<and> story_index s = 0 \<and> story_inv s"
proof -
  have "{t \<in> star_trigger_indices. t \<le> (0::int)} = {}"
    by (auto simp: star_trigger_indices_def)
  then have "card {t \<in> star_trigger_indices. t \<le> (0::int)} = 0"
    by (simp only: card.empty)
  then show ?thesis by (simp add: story_init_eq story_inv_def)
qed

lemma progress_story_at_end:
  "story_index s = 15 \<Longrightarrow> progress_story s = Inr s"
  by (simp add: progress_story_def length_story_lines)

lemma progress_story_fields:
  assumes "0 \<le> story_index s" and "story_index s < 15"
  shows "\<exists>s'. progress_story s = Inr s' \<and> story_index s' = story_index s + 1 \<and>
     narrative_text s' = story_lines ! nat (story_index s + 1) \<and>
     star_count s' =
       star_count s + (if story_index s + 1 \<in> star_trigger_indices then 1 else 0)"
proof -
  have "py_getitem story_lines (story_index s + 1) = Inr (story_lines ! nat (story_index s + 1))"
    using assms by (intro py_getitem_nonneg) (simp_all add: length_story_lines)
  then show ?thesis
    using assms by (simp add: progress_story_def Let_def length_story_lines)
qed

lemma progress_story_before_end:
  assumes "story_inv s" and "story_index s < 15"
  shows "\<exists>s'. progress_story s = Inr s' \<and> story_index s' = story_index s + 1 \<and> story_inv s'"
proof -
  have nonneg: "0 \<le> story_index s" using assms(1) by (simp add: story_inv_def)
  obtain s' where s': "progress_story s = Inr s'" "story_index s' = story_index s + 1"
      "narrative_text s' = story_lines ! nat (story_index s + 1)"
      "star_count s' =
         star_count s + (if story_index s + 1 \<in> star_trigger_indices then 1 else 0)"
    using progress_story_fields [OF nonneg assms(2)] by blast
  have old: "star_count s = int (card {t \<in> star_trigger_indices. t \<le> story_index s})"
    using assms(1) by (simp add: story_inv_def)
  have cnt: "star_count s' = int (card {t \<in> star_trigger_indices. t \<le> story_index s + 1})"
    unfolding s'(4) old triggers_upto_step [OF finite_triggers, of "story_index s"] by simp
  have "story_inv s'"
    unfolding story_inv_def s'(2) using nonneg assms(2) s'(3) cnt by simp
  then show ?thesis using s'(1,2) by blast
qed

lemma presses_closed_form:
  "\<exists>s. presses n = Inr s \<and> story_index s = min (int n) 15 \<and> story_inv s"
proof (induction n)
  case 0
  then show ?case using story_init_inv by simp
next
  case (Suc n)
  then obtain s where s: "presses n = Inr s" "story_index s = min (int n) 15" "story_inv s"
    by blast
  show ?case
  proof (cases "int n < 15")
    case True
    then have "story_index s < 15" using s by simp
    from progress_story_before_end [OF s(3) this] obtain s' where
      "progress_story s = Inr s'" "story_index s' = story_index s + 1" "story_inv s'" by blast
    then show ?thesis using s True by simp
  next
    case False
    then have "story_index s = 15" using s by simp
    then have "progress_story s = Inr s" by (rule progress_story_at_end)
    then show ?thesis using s False by simp
  qed
qed

lemma presses_final: "presses (15 + k) = presses 15"
proof (induction k)
  case 0
  then show ?case by simp
next
  case (Suc k)
  obtain s where s: "presses 15 = Inr s" "story_index s = min (int 15) 15"
    using presses_closed_form [of 15] by blast
  then have "progress_story s = Inr s" by (simp add: progress_story_at_end)
  moreover have "presses (15 + Suc k) =
      (case presses (15 + k) of Inl e \<Rightarrow> Inl e | Inr s \<Rightarrow> progress_story s)"
    by (simp only: add_Suc_right presses.simps)
  ultimately show ?case using Suc s by simp
qed

lemma presses_9:
  "presses 9 = Inr \<lparr>story_index = 9, star_count = 3,
     narrative_text = ''The Red Coins' energy forms a Power Star above an ancient pedestal.'',
     prompt_enabled = True, star_text = 3\<rparr>"
  by (simp add: eval_nat_numeral story_init_def progress_story_def py_getitem_def
      story_lines_def star_trigger_indices_def Let_def)

text \<open>
  C9. The slideshow starts at index 0. After \<open>n\<close> presses of the space key the session
  is a state (no press raises), its \<open>story_index\<close> is \<open>n\<close> capped at the last index,
  so it lies in \<open>[0, len(story_lines) - 1]\<close>; the text on display is
  \<open>story_lines[story_index]\<close>, an element of \<open>story_lines\<close>; and any \<open>k\<close> presses after
  the last line has been reached leave the session as it was.
\<close>

theorem story_index_stays_valid:
  "\<exists>s0 s. story_init = Inr s0 \<and> story_index s0 = 0 \<and>
     presses n = Inr s \<and>
     story_index s = min (int n) (int (length story_lines) - 1) \<and>
     0 \<le> story_index s \<and> story_index s \<le> int (length story_lines) - 1 \<and>
     py_getitem story_lines (story_index s) = Inr (narrative_text s) \<and>
     narrative_text s \<in> set story_lines \<and>
     presses (nat (int (length story_lines) - 1) + k) = presses (nat (int (length story_lines) - 1))"
proof -
  obtain s0 where s0: "story_init = Inr s0" "story_index s0 = 0"
    using story_init_inv by blast
  obtain s where s: "presses n = Inr s" "story_index s = min (int n) 15" "story_inv s"
    using presses_closed_form by blast
  have rng: "0 \<le> story_index s" "story_index s < int (length story_lines)"
    using s(3) by (simp_all add: story_inv_def length_story_lines)
  have shown: "narrative_text s = story_lines ! nat (story_index s)"
    using s(3) by (simp add: story_inv_def)
  have get: "py_getitem story_lines (story_index s) = Inr (narrative_text s)"
    using py_getitem_nonneg [OF rng] shown by simp
  have mem: "narrative_text s \<in> set story_lines"
    unfolding shown using rng by (intro nth_mem) simp
  have fin: "presses (15 + k) = presses 15" by (rule presses_final)
  show ?thesis
    apply (rule exI [of _ s0])
    apply (rule exI [of _ s])
    using s0 s(1,2) rng get mem fin by (simp add: length_story_lines)
qed

theorem story_index_stays_valid_witness:
  "\<exists>s. presses 9 = Inr s \<and> story_index s = 9 \<and>
     narrative_text s = ''The Red Coins' energy forms a Power Star above an ancient pedestal.'' \<and>
     narrative_text s \<in> set story_lines"
  using story_index_stays_valid [of 9 0] by (auto simp: presses_9)

text \<open>
  C10. After \<open>n\<close> presses, \<open>star_count\<close> is the number of trigger indices in
  \<open>{5, 8, 9, 15}\<close> that are at most the current \<open>story_index\<close>; it is at most 4, and
  \<open>k\<close> further presses never lower it.
\<close>

theorem star_count_counts_triggers:
  "\<exists>s s'. presses n = Inr s \<and> presses (n + k) = Inr s' \<and>
     star_count s = int (card {t \<in> star_trigger_indices. t \<le> story_index s}) \<and>
     star_count s \<le> star_count s' \<and> star_count s \<le> 4"
proof -
  obtain s where s: "presses n = Inr s" "story_index s = min (int n) 15" "story_inv s"
    using presses_closed_form by blast
  obtain s' where s': "presses (n + k) = Inr s'"
      "story_index s' = min (int (n + k)) 15" "story_inv s'"
    using presses_closed_form by blast
  have c: "star_count s = int (card {t \<in> star_trigger_indices. t \<le> story_index s})"
    using s(3) by (simp add: story_inv_def)
  have c': "star_count s' = int (card {t \<in> star_trigger_indices. t \<le> story_index s'})"
    using s'(3) by (simp add: story_inv_def)
  have "story_index s \<le> story_index s'" using s(2) s'(2) by simp
  then have mono: "star_count s \<le> star_count s'"
    unfolding c c' using triggers_card_mono by simp
  have le4: "star_count s \<le> 4"
    unfolding c using triggers_card_le [of "story_index s"] by simp
  show ?thesis using s(1) s'(1) c mono le4 by blast
qed

theorem star_count_counts_triggers_witness:
  "\<exists>s. presses 9 = Inr s \<and> story_index s = 9 \<and> star_count s = 3 \<and>
     card {t \<in> star_trigger_indices. t \<le> (9::int)} = 3"
proof -
  have "{t \<in> star_trigger_indices. t \<le> (9::int)} = {5, 8, 9}"
    by (auto simp: star_trigger_indices_def)
  then show ?thesis
    using star_count_counts_triggers [of 9 0] by (simp add: presses_9)
qed


section \<open>Properties of the course browser\<close>

lemma browser_init_inv:
  "cs \<noteq> [] \<Longrightarrow> browser_inv (browser_init cs) \<and> visible_rows (browser_init cs) = 10"
  by (simp add: browser_init_def browser_inv_def)

lemma set_courses_inv:
  "cs \<noteq> [] \<Longrightarrow> visible_rows b = 10 \<Longrightarrow>
     browser_inv (set_courses cs b) \<and> visible_rows (set_courses cs b) = 10"
  by (simp add: set_courses_def browser_inv_def)

lemma scroll_inv:
  "courses b \<noteq> [] \<Longrightarrow> visible_rows b = 10 \<Longrightarrow>
     browser_inv (scroll amount b) \<and> visible_rows (scroll amount b) = 10"
  by (auto simp: scroll_def clamp_def browser_inv_def Let_def)

lemma browser_inv_nonempty: "browser_inv b \<Longrightarrow> courses b \<noteq> []"
  by (auto simp: browser_inv_def)

lemma apply_call_inv:
  "supplies_courses c \<Longrightarrow> browser_inv b \<and> visible_rows b = 10 \<Longrightarrow>
     browser_inv (apply_call c b) \<and> visible_rows (apply_call c b) = 10"
  by (cases c) (simp_all add: scroll_inv set_courses_inv browser_inv_nonempty)

lemma fold_apply_call_inv:
  "list_all supplies_courses calls \<Longrightarrow> browser_inv b \<and> visible_rows b = 10 \<Longrightarrow>
     browser_inv (fold apply_call calls b) \<and> visible_rows (fold apply_call calls b) = 10"
proof (induction calls arbitrary: b)
  case Nil
  then show ?case by simp
next
  case (Cons c calls)
  from Cons.prems have "supplies_courses c" and rest: "list_all supplies_courses calls"
    by simp_all
  then have "browser_inv (apply_call c b) \<and> visible_rows (apply_call c b) = 10"
    using Cons.prems(2) by (simp add: apply_call_inv)
  from Cons.IH [OF rest this] show ?case by simp
qed

text \<open>
  C8. Start the widget on a non-empty course list and make any sequence of \<open>scroll\<close>
  and \<open>set_courses\<close> calls in which every supplied list is non-empty. Then
  \<open>0 \<le> selected < len(courses)\<close> and
  \<open>scroll_index \<le> selected < scroll_index + visible_rows\<close>, and \<open>get_selected_course\<close>
  returns (without \<open>IndexError\<close>) an element of the current list.
\<close>

theorem browser_selection_in_range:
  assumes "cs0 \<noteq> []" and "list_all supplies_courses calls"
  shows "let b = browser_run calls (browser_init cs0) in
           0 \<le> selected b \<and> selected b < int (length (courses b)) \<and>
           scroll_index b \<le> selected b \<and> selected b < scroll_index b + visible_rows b \<and>
           get_selected_course b = Inr (courses b ! nat (selected b)) \<and>
           courses b ! nat (selected b) \<in> set (courses b)"
proof -
  define b where "b = browser_run calls (browser_init cs0)"
  have inv: "browser_inv b"
    unfolding b_def browser_run_def
    using fold_apply_call_inv [OF assms(2) browser_init_inv [OF assms(1)]] by simp
  then have rng: "0 \<le> selected b" "selected b < int (length (courses b))"
    by (simp_all add: browser_inv_def)
  have get: "get_selected_course b = Inr (courses b ! nat (selected b))"
    unfolding get_selected_course_def using rng by (rule py_getitem_nonneg)
  have mem: "courses b ! nat (selected b) \<in> set (courses b)"
    using rng by (intro nth_mem) simp
  show ?thesis
    using inv get mem unfolding b_def [symmetric] Let_def browser_inv_def by simp
qed

text \<open>
  The witness scrolls a list of twelve past its end, which moves the window to rows
  2 to 11, then switches to a list of two and scrolls again.
\<close>

theorem browser_selection_in_range_witness:
  "[1, 2, 3, 4, 5, 6, 7, 8, 9, 10, 11, 12 :: int] \<noteq> [] \<and>
   list_all supplies_courses [Scroll 11, Scroll 1, SetCourses [7, 8 :: int], Scroll 5] \<and>
   selected (browser_run [Scroll 11, Scroll 1]
     (browser_init [1, 2, 3, 4, 5, 6, 7, 8, 9, 10, 11, 12 :: int])) = 11 \<and>
   scroll_index (browser_run [Scroll 11, Scroll 1]
     (browser_init [1, 2, 3, 4, 5, 6, 7, 8, 9, 10, 11, 12 :: int])) = 2 \<and>
   get_selected_course
     (browser_run [Scroll 11, Scroll 1, SetCourses [7, 8], Scroll 5]
        (browser_init [1, 2, 3, 4, 5, 6, 7, 8, 9, 10, 11, 12 :: int])) = Inr 8"
  using browser_selection_in_range
    [of "[1, 2, 3, 4, 5, 6, 7, 8, 9, 10, 11, 12 :: int]"
        "[Scroll 11, Scroll 1, SetCourses [7, 8 :: int], Scroll 5]"]
  by (simp add: browser_run_def browser_init_def scroll_def set_courses_def clamp_def
      get_selected_course_def py_getitem_def Let_def)

section \<open>Properties of the level generator\<close>

subsection \<open>The loops as one pass over the cells\<close>

lemma cell_step_origin: "cell_step rt cs pe pp 0 0 st = st"
  by (simp add: cell_step_def split: prod.splits)

lemma cell_step_non_origin:
  assumes "(x, z) \<noteq> (0, 0)"
  shows "cell_step rt cs pe pp x z (ents, g) =
     (ents @ spec_geometry cs (spec_classify pe pp (fst (random_random rt g))) (x, z),
      snd (random_random rt g))"
  using assms
  by (auto simp: cell_step_def spec_classify_def spec_geometry_def Let_def
      split: prod.splits)

lemma fold_concat_lists: "fold f (concat xss) st = fold (\<lambda>xs. fold f xs) xss st"
  by (induction xss arbitrary: st) simp_all

lemma grid_loop_cells:
  "grid_loop rt gs cs pe pp st =
     fold (\<lambda>c. cell_step rt cs pe pp (fst c) (snd c)) (grid_cells gs) st"
proof -
  have row: "row_loop rt gs cs pe pp = (\<lambda>x. fold (cell_step rt cs pe pp x) [0..gs - 1])"
    by (intro ext) (simp add: row_loop_def)
  show ?thesis
    by (simp add: grid_loop_def row grid_cells_def fold_concat_lists fold_map comp_def)
qed

lemma fold_cell_step:
  "fold (\<lambda>c. cell_step rt cs pe pp (fst c) (snd c)) cells (ents, g) =
     (ents @ spec_layout cs pe pp (filter (\<lambda>c. c \<noteq> (0, 0)) cells)
               (fst (draws rt (length (filter (\<lambda>c. c \<noteq> (0, 0)) cells)) g)),
      snd (draws rt (length (filter (\<lambda>c. c \<noteq> (0, 0)) cells)) g))"
proof (induction cells arbitrary: ents g)
  case Nil
  then show ?case by (simp add: spec_layout_def)
next
  case (Cons c cells)
  show ?case
  proof (cases "c = (0, 0)")
    case True
    then show ?thesis using Cons.IH by (simp add: cell_step_origin)
  next
    case False
    then have step: "cell_step rt cs pe pp (fst c) (snd c) (ents, g) =
        (ents @ spec_geometry cs (spec_classify pe pp (fst (random_random rt g))) c,
         snd (random_random rt g))"
      using cell_step_non_origin [of "fst c" "snd c"] by simp
    show ?thesis
      using False by (simp add: step Cons.IH spec_layout_def split: prod.splits)
  qed
qed

lemma setup_world_with_layout:
  "setup_world_with rt gs cs pe pp course_name g0 =
     (platform_entity cs (0, 0, 0) #
        spec_layout cs pe pp (non_origin_cells gs)
          (fst (draws rt (length (non_origin_cells gs))
                  (random_seed rt (str_hash rt course_name)))) @ [skybox],
      snd (draws rt (length (non_origin_cells gs)) (random_seed rt (str_hash rt course_name))))"
  by (simp add: setup_world_with_def grid_loop_cells fold_cell_step non_origin_cells_def Let_def)

lemma setup_world_ignores_state:
  "setup_world_with rt gs cs pe pp course_name g0 = setup_world_with rt gs cs pe pp course_name g0'"
  by (simp add: setup_world_with_def)


subsection \<open>The cells and the samples\<close>

lemma grid_cells_nonpos: "gs \<le> 0 \<Longrightarrow> grid_cells gs = []"
  by (simp add: grid_cells_def)

lemma set_grid_cells: "c \<in> set (grid_cells gs) \<Longrightarrow> 0 \<le> fst c \<and> fst c < gs \<and> 0 \<le> snd c \<and> snd c < gs"
  by (auto simp: grid_cells_def)

lemma non_origin_cells_explicit:
  assumes "0 < gs"
  shows "non_origin_cells gs =
     map (Pair 0) [1..gs - 1] @ concat (map (\<lambda>x. map (Pair x) [0..gs - 1]) [1..gs - 1])"
proof -
  have up: "[0..gs - 1] = 0 # [1..gs - 1]"
    using assms by (simp add: upto_rec1)
  have row0: "filter (\<lambda>c. c \<noteq> (0, 0)) (map (Pair 0) [1..gs - 1]) = map (Pair 0) [1..gs - 1]"
    by (rule filter_True) auto
  have rows: "filter (\<lambda>c. c \<noteq> (0, 0)) (concat (map (\<lambda>x. map (Pair x) [0..gs - 1]) [1..gs - 1]))
      = concat (map (\<lambda>x. map (Pair x) [0..gs - 1]) [1..gs - 1])"
    by (rule filter_True) auto
  have "grid_cells gs =
      (0, 0) # map (Pair 0) [1..gs - 1] @ concat (map (\<lambda>x. map (Pair x) [0..gs - 1]) [1..gs - 1])"
    unfolding grid_cells_def by (subst (3) up) (simp add: up)
  then show ?thesis
    unfolding non_origin_cells_def using row0 rows by simp
qed

lemma length_non_origin_cells: "length (non_origin_cells gs) = nat gs * nat gs - 1"
proof (cases "0 < gs")
  case True
  have "length (concat (map (\<lambda>x. map (Pair x) [0..gs - 1]) [1..gs - 1])) = nat (gs - 1) * nat gs"
    using True by (simp add: length_concat comp_def sum_list_triv)
  then have "length (non_origin_cells gs) = nat (gs - 1) + nat (gs - 1) * nat gs"
    using True by (simp add: non_origin_cells_explicit)
  also have "\<dots> = nat gs * nat gs - 1"
  proof -
    obtain m where "nat gs = Suc m" using True by (cases "nat gs") auto
    moreover from this have "nat (gs - 1) = m" by simp
    ultimately show ?thesis by simp
  qed
  finally show ?thesis .
next
  case False
  then show ?thesis by (simp add: non_origin_cells_def grid_cells_nonpos)
qed

lemma length_draws: "length (fst (draws rt n g)) = n"
  by (induction n arbitrary: g) (simp_all add: split_beta)

lemma take_draws: "k \<le> n \<Longrightarrow> take k (fst (draws rt n g)) = fst (draws rt k g)"
proof (induction n arbitrary: k g)
  case 0
  then show ?case by simp
next
  case (Suc n)
  show ?case
  proof (cases k)
    case 0
    then show ?thesis by simp
  next
    case (Suc j)
    then have "j \<le> n" using Suc.prems by simp
    then show ?thesis
      using Suc.IH [of j] Suc by (simp add: split_beta)
  qed
qed


lemma spec_layout_split:
  assumes "length rs = length cells"
  shows "spec_layout cs pe pp cells rs =
     spec_layout cs pe pp (take k cells) (take k rs) @
     spec_layout cs pe pp (drop k cells) (drop k rs)"
proof -
  have "zip cells rs = zip (take k cells) (take k rs) @ zip (drop k cells) (drop k rs)"
    by (simp only: take_zip [symmetric] drop_zip [symmetric] append_take_drop_id)
  then show ?thesis by (simp add: spec_layout_def)
qed

lemma set_spec_layout:
  assumes "e \<in> set (spec_layout cs pe pp cells rs)"
  shows "\<exists>c kind. c \<in> set cells \<and> e \<in> set (spec_geometry cs kind c)"
proof -
  from assms obtain c r where cr: "(c, r) \<in> set (zip cells rs)"
      and e: "e \<in> set (spec_geometry cs (spec_classify pe pp r) c)"
    by (auto simp: spec_layout_def)
  from cr have "c \<in> set cells" by (rule set_zip_leftD)
  with e show ?thesis by blast
qed

lemma setup_world_with_prefix:
  assumes "k \<le> nat gs * nat gs - 1"
  shows "\<exists>rest. fst (setup_world_with rt gs cs pe pp course_name g0) =
     platform_entity cs (0, 0, 0) #
       spec_layout cs pe pp (take k (non_origin_cells gs))
         (fst (draws rt k (random_seed rt (str_hash rt course_name)))) @ rest"
proof -
  let ?cells = "non_origin_cells gs"
  let ?rs = "fst (draws rt (length ?cells) (random_seed rt (str_hash rt course_name)))"
  have k: "k \<le> length ?cells" using assms by (simp add: length_non_origin_cells)
  have "spec_layout cs pe pp ?cells ?rs =
      spec_layout cs pe pp (take k ?cells) (take k ?rs) @
      spec_layout cs pe pp (drop k ?cells) (drop k ?rs)"
    by (rule spec_layout_split) (simp add: length_draws)
  moreover have "take k ?rs = fst (draws rt k (random_seed rt (str_hash rt course_name)))"
    using k by (rule take_draws)
  ultimately show ?thesis
    by (simp add: setup_world_with_layout)
qed

subsection \<open>Evaluations on the small runtime\<close>

lemma demo_eval_2:
  "setup_world_with (demo_runtime 0) 2 2 (0.7::rat) 0.2 ''Sky Land Resort'' 5 =
     ([platform_entity 2 (0, 0, 0), platform_entity 2 (2, 0, 2), skybox], 858)"
  by (simp add: setup_world_with_def grid_loop_def row_loop_def cell_step_def demo_runtime_def
      salted_hash_def lcg_seed_def lcg_random_def upto_rec1 Let_def)

lemma first_cells_20:
  "take 11 (non_origin_cells 20) =
     [(0, 1), (0, 2), (0, 3), (0, 4), (0, 5), (0, 6), (0, 7), (0, 8), (0, 9), (0, 10), (0, 11)]"
  by (simp add: non_origin_cells_explicit upto_rec1)

lemma prefix_key0:
  "spec_layout 2 (0.7::rat) 0.2 [(0, 1), (0, 2), (0, 3)]
     (fst (draws (demo_runtime 0) 3
        (random_seed (demo_runtime 0) (str_hash (demo_runtime 0) ''Sky Land Resort''))))
   = [platform_entity 2 (0, 0, 6)]"
  by code_simp

lemma prefix_key1:
  "spec_layout 2 (0.7::rat) 0.2
     [(0, 1), (0, 2), (0, 3), (0, 4), (0, 5), (0, 6), (0, 7), (0, 8), (0, 9), (0, 10), (0, 11)]
     (fst (draws (demo_runtime 1) 11
        (random_seed (demo_runtime 1) (str_hash (demo_runtime 1) ''Sky Land Resort''))))
   = [platform_entity 2 (0, 0, 22)]"
  by code_simp


subsection \<open>The claims about the generator\<close>

text \<open>
  C1. Within one process the output of \<open>_setup_world\<close> is a function of the course name
  alone: two calls with the same name create the same entities in the same order and
  leave the generator in the same state, whatever state they find it in. Across
  processes it is not: the seed is the built-in \<open>hash\<close> of the name, which belongs to
  the process, and two processes whose hashes of \<open>"Sky Land Resort"\<close> differ (here the
  keys 0 and 1 of the small runtime) build different layouts. The second entity is the
  platform of cell \<open>(0, 3)\<close> in one and of cell \<open>(0, 11)\<close> in the other.
\<close>

theorem layout_differs_between_processes:
  "setup_world rt course_name g0 = setup_world rt course_name g0' \<and>
   fst (setup_world (demo_runtime 0) ''Sky Land Resort'' 0) \<noteq>
   fst (setup_world (demo_runtime 1) ''Sky Land Resort'' 0)"
proof
  show "setup_world rt course_name g0 = setup_world rt course_name g0'"
    unfolding setup_world_def by (rule setup_world_ignores_state)
next
  have c3: "take 3 (non_origin_cells 20) = [(0, 1), (0, 2), (0, 3)]"
    using arg_cong [OF first_cells_20, of "take 3"] by simp
  obtain rest0 where r0: "fst (setup_world (demo_runtime 0) ''Sky Land Resort'' 0) =
      platform_entity 2 (0, 0, 0) # [platform_entity 2 (0, 0, 6)] @ rest0"
    using setup_world_with_prefix [of 3 20 "demo_runtime 0" 2 "0.7::rat" "0.2::rat" "''Sky Land Resort''" 0]
    unfolding setup_world_def c3 prefix_key0 by auto
  obtain rest1 where r1: "fst (setup_world (demo_runtime 1) ''Sky Land Resort'' 0) =
      platform_entity 2 (0, 0, 0) # [platform_entity 2 (0, 0, 22)] @ rest1"
    using setup_world_with_prefix [of 11 20 "demo_runtime 1" 2 "0.7::rat" "0.2::rat" "''Sky Land Resort''" 0]
    unfolding setup_world_def first_cells_20 prefix_key1 by auto
  show "fst (setup_world (demo_runtime 0) ''Sky Land Resort'' 0) \<noteq>
      fst (setup_world (demo_runtime 1) ''Sky Land Resort'' 0)"
    unfolding r0 r1 by (simp add: platform_entity_def)
qed

text \<open>
  C2. The iteration for the cell \<open>(0, 0)\<close> leaves the entities and the generator as
  they were; the first entity of every call is the platform of the origin cell; and a
  call draws \<open>grid_size\<^sup>2 - 1\<close> samples, one fewer than the grid has cells.
\<close>

theorem origin_is_platform_without_draw:
  "cell_step rt cs pe pp 0 0 (ents, g) = (ents, g) \<and>
   (\<exists>rest. fst (setup_world_with rt gs cs pe pp course_name g0) =
      spec_geometry cs Platform (0, 0) @ rest) \<and>
   spec_geometry cs Platform (0, 0) = [platform_entity cs (0, 0, 0)] \<and>
   (\<exists>rs g'. draws rt (nat gs * nat gs - 1) (random_seed rt (str_hash rt course_name)) = (rs, g') \<and>
      length rs = nat gs * nat gs - 1 \<and>
      snd (setup_world_with rt gs cs pe pp course_name g0) = g')"
proof (intro conjI)
  show "cell_step rt cs pe pp 0 0 (ents, g) = (ents, g)"
    by (rule cell_step_origin)
  show geo: "spec_geometry cs Platform (0, 0) = [platform_entity cs (0, 0, 0)]"
    by (simp add: spec_geometry_def)
  show "\<exists>rest. fst (setup_world_with rt gs cs pe pp course_name g0) =
      spec_geometry cs Platform (0, 0) @ rest"
    by (simp add: geo setup_world_with_layout)
  show "\<exists>rs g'. draws rt (nat gs * nat gs - 1) (random_seed rt (str_hash rt course_name)) = (rs, g') \<and>
      length rs = nat gs * nat gs - 1 \<and>
      snd (setup_world_with rt gs cs pe pp course_name g0) = g'"
    using length_draws [of rt "nat gs * nat gs - 1" "random_seed rt (str_hash rt course_name)"]
    by (cases "draws rt (nat gs * nat gs - 1) (random_seed rt (str_hash rt course_name))")
      (simp add: setup_world_with_layout length_non_origin_cells)
qed

theorem origin_is_platform_without_draw_witness:
  "hd (fst (setup_world_with (demo_runtime 0) 2 2 (0.7::rat) 0.2 ''Sky Land Resort'' 5)) =
     platform_entity 2 (0, 0, 0) \<and>
   snd (setup_world_with (demo_runtime 0) 2 2 (0.7::rat) 0.2 ''Sky Land Resort'' 5) =
     snd (draws (demo_runtime 0) 3 397)"
  using origin_is_platform_without_draw
    [of "demo_runtime 0" 2 "0.7::rat" "0.2::rat" "[]" 0 2 "''Sky Land Resort''" 5]
  by (auto simp: demo_runtime_def salted_hash_def lcg_seed_def)



text \<open>
  C4. The cells are visited with \<open>x\<close> in the outer and \<open>z\<close> in the inner loop, both over
  \<open>[0, grid_size)\<close>. The samples are successive outputs of the one generator seeded at
  the start of the call, and the \<open>k\<close>-th of them classifies the \<open>k\<close>-th cell other than
  the origin in that order.
\<close>

theorem draws_follow_row_major_order:
  "grid_cells gs = concat (map (\<lambda>x. map (\<lambda>z. (x, z)) [0..gs - 1]) [0..gs - 1]) \<and>
   non_origin_cells gs = filter (\<lambda>c. c \<noteq> (0, 0)) (grid_cells gs) \<and>
   (\<exists>rs g'. draws rt (length (non_origin_cells gs))
               (random_seed rt (str_hash rt course_name)) = (rs, g') \<and>
      length rs = length (non_origin_cells gs) \<and>
      setup_world_with rt gs cs pe pp course_name g0 =
        (platform_entity cs (0, 0, 0) #
           concat (map2 (\<lambda>c r. spec_geometry cs (spec_classify pe pp r) c)
                     (non_origin_cells gs) rs) @ [skybox],
         g'))"
proof (intro conjI)
  show "grid_cells gs = concat (map (\<lambda>x. map (\<lambda>z. (x, z)) [0..gs - 1]) [0..gs - 1])"
    by (simp add: grid_cells_def)
  show "non_origin_cells gs = filter (\<lambda>c. c \<noteq> (0, 0)) (grid_cells gs)"
    by (simp add: non_origin_cells_def)
  show "\<exists>rs g'. draws rt (length (non_origin_cells gs))
               (random_seed rt (str_hash rt course_name)) = (rs, g') \<and>
      length rs = length (non_origin_cells gs) \<and>
      setup_world_with rt gs cs pe pp course_name g0 =
        (platform_entity cs (0, 0, 0) #
           concat (map2 (\<lambda>c r. spec_geometry cs (spec_classify pe pp r) c)
                     (non_origin_cells gs) rs) @ [skybox],
         g')"
    using length_draws [of rt "length (non_origin_cells gs)"
        "random_seed rt (str_hash rt course_name)"]
    by (cases "draws rt (length (non_origin_cells gs)) (random_seed rt (str_hash rt course_name))")
      (simp add: setup_world_with_layout spec_layout_def)
qed

theorem draws_follow_row_major_order_witness:
  "non_origin_cells 2 = [(0, 1), (1, 0), (1, 1)] \<and>
   draws (demo_runtime 0) 3 397 = ([0.344, 0.231, 0.858], 858) \<and>
   setup_world_with (demo_runtime 0) 2 2 (0.7::rat) 0.2 ''Sky Land Resort'' 5 =
     ([platform_entity 2 (0, 0, 0), platform_entity 2 (2, 0, 2), skybox], 858)"
proof -
  have cells: "non_origin_cells 2 = [(0, 1), (1, 0), (1, 1)]"
    by (simp add: non_origin_cells_def grid_cells_def upto_rec1)
  have seed: "random_seed (demo_runtime 0) (str_hash (demo_runtime 0) ''Sky Land Resort'') = 397"
    by (simp add: demo_runtime_def salted_hash_def lcg_seed_def)
  have samples: "draws (demo_runtime 0) 3 397 = ([0.344, 0.231, 0.858], 858)"
    by (simp add: eval_nat_numeral demo_runtime_def lcg_random_def)
  from draws_follow_row_major_order
    [of 2 "demo_runtime 0" "''Sky Land Resort''" 2 "0.7::rat" "0.2::rat" 5]
  obtain rs g' where
    d: "draws (demo_runtime 0) (length (non_origin_cells 2))
          (random_seed (demo_runtime 0) (str_hash (demo_runtime 0) ''Sky Land Resort'')) = (rs, g')"
    and out: "setup_world_with (demo_runtime 0) 2 2 (0.7::rat) 0.2 ''Sky Land Resort'' 5 =
      (platform_entity 2 (0, 0, 0) #
         concat (map2 (\<lambda>c r. spec_geometry 2 (spec_classify (0.7::rat) 0.2 r) c)
                   (non_origin_cells 2) rs) @ [skybox],
       g')"
    by blast
  have "length (non_origin_cells 2) = 3" by (simp add: cells)
  with d have "draws (demo_runtime 0) 3 397 = (rs, g')" by (simp only: seed)
  with samples have "rs = [0.344, 0.231, 0.858]" and "g' = 858" by simp_all
  with out have "setup_world_with (demo_runtime 0) 2 2 (0.7::rat) 0.2 ''Sky Land Resort'' 5 =
      (platform_entity 2 (0, 0, 0) #
         concat (map2 (\<lambda>c r. spec_geometry 2 (spec_classify (0.7::rat) 0.2 r) c)
                   [(0, 1), (1, 0), (1, 1)] [0.344, 0.231, 0.858]) @ [skybox],
       858)"
    by (simp only: cells)
  then have "setup_world_with (demo_runtime 0) 2 2 (0.7::rat) 0.2 ''Sky Land Resort'' 5 =
      ([platform_entity 2 (0, 0, 0), platform_entity 2 (2, 0, 2), skybox], 858)"
    by (simp add: spec_geometry_def spec_classify_def)
  with cells samples show ?thesis by (intro conjI)
qed

text \<open>
  C5. On a grid of positive size, every entity a call creates, the skybox apart, belongs
  to a cell \<open>(x, z)\<close> of the grid: it is a cube with a box collider at
  \<open>(x * cell_size, 0, z * cell_size)\<close> or a sphere with a sphere collider at
  \<open>(x * cell_size, 1, z * cell_size)\<close>. And the iteration for a cell \<open>(x, z)\<close> other than
  the origin places nothing for an Empty cell, one such cube at the cell's own position
  for a Platform cell, and one such sphere one unit above it for an Obstacle cell.
\<close>

theorem geometry_sits_on_the_grid:
  assumes "0 < gs"
    and "e \<in> set (fst (setup_world_with rt gs cs pe pp course_name g0))"
    and "(x, z) \<noteq> (0, 0)"
  shows "(e = skybox \<or>
      (\<exists>x z. 0 \<le> x \<and> x < gs \<and> 0 \<le> z \<and> z < gs \<and>
         (model e = Cube \<and> collider e = Some BoxCollider \<and>
            position e = (x * cs, 0, z * cs) \<or>
          model e = Sphere \<and> collider e = Some SphereCollider \<and>
            position e = (x * cs, 1, z * cs)))) \<and>
    (\<exists>r g' es. random_random rt g = (r, g') \<and>
       cell_step rt cs pe pp x z (ents, g) = (ents @ es, g') \<and>
       (case spec_classify pe pp r of
          Empty \<Rightarrow> es = []
        | Platform \<Rightarrow>
            (\<exists>p. es = [p] \<and> model p = Cube \<and> collider p = Some BoxCollider \<and>
               position p = (x * cs, 0, z * cs))
        | Obstacle \<Rightarrow>
            (\<exists>s. es = [s] \<and> model s = Sphere \<and> collider s = Some SphereCollider \<and>
               position s = (x * cs, 1, z * cs))))"
proof
  let ?rs = "fst (draws rt (length (non_origin_cells gs)) (random_seed rt (str_hash rt course_name)))"
  from assms(2) consider
      (origin) "e = platform_entity cs (0, 0, 0)"
    | (cell) "e \<in> set (spec_layout cs pe pp (non_origin_cells gs) ?rs)"
    | (sky) "e = skybox"
    by (auto simp: setup_world_with_layout)
  then show "e = skybox \<or>
      (\<exists>x z. 0 \<le> x \<and> x < gs \<and> 0 \<le> z \<and> z < gs \<and>
         (model e = Cube \<and> collider e = Some BoxCollider \<and>
            position e = (x * cs, 0, z * cs) \<or>
          model e = Sphere \<and> collider e = Some SphereCollider \<and>
            position e = (x * cs, 1, z * cs)))"
  proof cases
    case origin
    have "model e = Cube \<and> collider e = Some BoxCollider \<and> position e = (0 * cs, 0, 0 * cs)"
      by (simp add: origin platform_entity_def)
    then show ?thesis using assms(1) by blast
  next
    case cell
    then obtain c kind where c: "c \<in> set (non_origin_cells gs)"
        and e: "e \<in> set (spec_geometry cs kind c)"
      using set_spec_layout by blast
    from c have "c \<in> set (grid_cells gs)" by (simp add: non_origin_cells_def)
    then have rng: "0 \<le> fst c \<and> fst c < gs \<and> 0 \<le> snd c \<and> snd c < gs"
      by (rule set_grid_cells)
    from e have "model e = Cube \<and> collider e = Some BoxCollider \<and>
           position e = (fst c * cs, 0, snd c * cs) \<or>
         model e = Sphere \<and> collider e = Some SphereCollider \<and>
           position e = (fst c * cs, 1, snd c * cs)"
      by (cases kind) (auto simp: spec_geometry_def platform_entity_def obstacle_entity_def)
    with rng show ?thesis by blast
  next
    case sky
    then show ?thesis by simp
  qed
next
  obtain r g' where draw: "random_random rt g = (r, g')"
    by (cases "random_random rt g")
  have step: "cell_step rt cs pe pp x z (ents, g) =
      (ents @ spec_geometry cs (spec_classify pe pp r) (x, z), g')"
    using cell_step_non_origin [OF assms(3), of rt cs pe pp ents g] draw by simp
  have "case spec_classify pe pp r of
          Empty \<Rightarrow> spec_geometry cs (spec_classify pe pp r) (x, z) = []
        | Platform \<Rightarrow>
            (\<exists>p. spec_geometry cs (spec_classify pe pp r) (x, z) = [p] \<and> model p = Cube \<and>
               collider p = Some BoxCollider \<and> position p = (x * cs, 0, z * cs))
        | Obstacle \<Rightarrow>
            (\<exists>s. spec_geometry cs (spec_classify pe pp r) (x, z) = [s] \<and> model s = Sphere \<and>
               collider s = Some SphereCollider \<and> position s = (x * cs, 1, z * cs))"
    by (cases "spec_classify pe pp r")
      (simp_all add: spec_geometry_def platform_entity_def obstacle_entity_def)
  with draw step show "\<exists>r g' es. random_random rt g = (r, g') \<and>
       cell_step rt cs pe pp x z (ents, g) = (ents @ es, g') \<and>
       (case spec_classify pe pp r of
          Empty \<Rightarrow> es = []
        | Platform \<Rightarrow>
            (\<exists>p. es = [p] \<and> model p = Cube \<and> collider p = Some BoxCollider \<and>
               position p = (x * cs, 0, z * cs))
        | Obstacle \<Rightarrow>
            (\<exists>s. es = [s] \<and> model s = Sphere \<and> collider s = Some SphereCollider \<and>
               position s = (x * cs, 1, z * cs)))"
    by blast
qed

theorem geometry_sits_on_the_grid_witness:
  "(0::int) < 2 \<and>
   platform_entity 2 (2, 0, 2) \<in>
     set (fst (setup_world_with (demo_runtime 0) 2 2 (0.7::rat) 0.2 ''Sky Land Resort'' 5)) \<and>
   ((0::int), (3::int)) \<noteq> (0, 0) \<and>
   platform_entity 2 (2, 0, 2) \<noteq> skybox \<and>
   position (platform_entity 2 (2, 0, 2)) = (1 * 2, 0, 1 * 2) \<and>
   (\<exists>p. cell_step (demo_runtime 0) 2 (0.7::rat) 0.2 0 3 ([], 851) = ([p], 878) \<and>
      model p = Cube \<and> position p = (0 * 2, 0, 3 * 2))"
proof -
  have pos: "(0::int) < 2" by simp
  have mem: "platform_entity 2 (2, 0, 2) \<in>
      set (fst (setup_world_with (demo_runtime 0) 2 2 (0.7::rat) 0.2 ''Sky Land Resort'' 5))"
    unfolding demo_eval_2 by simp
  have cell: "((0::int), (3::int)) \<noteq> (0, 0)" by simp
  have draw: "random_random (demo_runtime 0) 851 = (0.878, 878)"
    by (simp add: demo_runtime_def lcg_random_def)
  have kind: "spec_classify (0.7::rat) 0.2 0.878 = Platform"
    by (simp add: spec_classify_def)
  from geometry_sits_on_the_grid [OF pos mem cell, where g = 851 and ents = "[]"]
  obtain r g' es where r: "random_random (demo_runtime 0) 851 = (r, g')"
    and step: "cell_step (demo_runtime 0) 2 (0.7::rat) 0.2 0 3 ([], 851) = ([] @ es, g')"
    and shape: "case spec_classify (0.7::rat) 0.2 r of
          Empty \<Rightarrow> es = []
        | Platform \<Rightarrow>
            (\<exists>p. es = [p] \<and> model p = Cube \<and> collider p = Some BoxCollider \<and>
               position p = (0 * 2, 0, 3 * 2))
        | Obstacle \<Rightarrow>
            (\<exists>s. es = [s] \<and> model s = Sphere \<and> collider s = Some SphereCollider \<and>
               position s = (0 * 2, 1, 3 * 2))"
    by blast
  from r draw have rv: "r = 0.878" and gv: "g' = 878" by simp_all
  from shape obtain p where "es = [p]" "model p = Cube" "position p = (0 * 2, 0, 3 * 2)"
    unfolding rv kind by auto
  with step gv have "\<exists>p. cell_step (demo_runtime 0) 2 (0.7::rat) 0.2 0 3 ([], 851) = ([p], 878) \<and>
      model p = Cube \<and> position p = (0 * 2, 0, 3 * 2)"
    by simp
  moreover have "platform_entity 2 (2, 0, 2) \<noteq> skybox"
    by (simp add: platform_entity_def skybox_def)
  moreover have "position (platform_entity 2 (2, 0, 2)) = (1 * 2, 0, 1 * 2)"
    by (simp add: platform_entity_def)
  ultimately show ?thesis using pos mem cell by (intro conjI)
qed







end
